theory Spec2Isabelle
  imports Main
begin

section \<open>Data model of \<open>azure_startup.py\<close>\<close>

subsection \<open>Python exceptions\<close>

text \<open>
  The script filters raised objects three ways: \<open>except ImportError\<close> (line 112),
  \<open>except Exception\<close> (lines 206, 224, 255, 263) and a bare \<open>except:\<close> (line 170).
  An exception object is therefore modelled by the most specific of these three classes
  it is an instance of, together with \<open>str(e)\<close>, the only other thing the script reads.
\<close>

datatype exc_class =
    ImportErrorC        \<comment> \<open>\<open>ImportError\<close> and its subclasses\<close>
  | ExceptionC          \<comment> \<open>any other subclass of \<open>Exception\<close>\<close>
  | BaseExceptionC      \<comment> \<open>\<open>SystemExit\<close>, \<open>KeyboardInterrupt\<close>, ...: not an \<open>Exception\<close>\<close>

datatype pyexc = PyExc (exc_cls: exc_class) (exc_str: string)

definition is_ImportError :: "pyexc \<Rightarrow> bool" where
  "is_ImportError e = (exc_cls e = ImportErrorC)"

definition is_Exception :: "pyexc \<Rightarrow> bool" where
  "is_Exception e = (exc_cls e = ImportErrorC \<or> exc_cls e = ExceptionC)"

subsection \<open>JSON values\<close>

text \<open>
  The values \<open>json.loads\<close> produces and \<open>json.dumps\<close> accepts. A \<open>dict\<close> is an
  association list in insertion order; a Python \<open>float\<close> is kept as a pair
  (mantissa, binary exponent), since the script only passes it on.
\<close>

datatype json =
    JNull
  | JBool bool
  | JInt int
  | JFloat int int
  | JStr string
  | JList "json list"
  | JDict "(string \<times> json) list"

definition quoted :: "string \<Rightarrow> string" where
  "quoted s = CHR 0x27 # s @ [CHR 0x27]"

fun type_name :: "json \<Rightarrow> string" where
  "type_name JNull = ''NoneType''"
| "type_name (JBool _) = ''bool''"
| "type_name (JInt _) = ''int''"
| "type_name (JFloat _ _) = ''float''"
| "type_name (JStr _) = ''str''"
| "type_name (JList _) = ''list''"
| "type_name (JDict _) = ''dict''"

definition AttributeError :: "json \<Rightarrow> string \<Rightarrow> pyexc" where
  "AttributeError v attr =
     PyExc ExceptionC (quoted (type_name v) @ '' object has no attribute '' @ quoted attr)"

text \<open>\<open>v.get(k, dflt)\<close>: a lookup on a \<open>dict\<close>, an \<open>AttributeError\<close> on the other
  JSON values (none of \<open>None\<close>, \<open>bool\<close>, \<open>int\<close>, \<open>float\<close>, \<open>str\<close>, \<open>list\<close> has a
  \<open>get\<close>).\<close>

fun py_get :: "json \<Rightarrow> string \<Rightarrow> json \<Rightarrow> pyexc + json" where
  "py_get (JDict kvs) k dflt = Inr (case map_of kvs k of Some v \<Rightarrow> v | None \<Rightarrow> dflt)"
| "py_get v k dflt = Inl (AttributeError v ''get'')"

subsection \<open>Requests, responses and the collaborators of one request\<close>

text \<open>The methods the handler class defines. A request with any other method is
  answered by the base class \<open>BaseHTTPRequestHandler\<close> and never reaches the script.\<close>

datatype http_method = GET | POST | HEAD

text \<open>What the handler reads of a request: \<open>self.path\<close>, the \<open>Content-Length\<close> header
  (absent or its text) and \<open>self.rfile.read(n)\<close>, which returns bytes or raises.\<close>

record request =
  command :: http_method
  path :: string
  content_length :: "string option"
  rfile_read :: "int \<Rightarrow> pyexc + string"

text \<open>What the world answers while one request is handled: the two clocks, Python's
  \<open>int(s)\<close>, \<open>json.loads(body.decode('utf-8'))\<close>, and lines 178 to 190 (importing
  \<open>cleanup_api\<close> and running \<open>run_cleanup_operation(retention_hours)\<close> to completion on a
  fresh event loop), which return a value or raise.\<close>

record env =
  now_iso :: string
  utcnow_iso :: string
  py_int :: "string \<Rightarrow> pyexc + int"
  json_loads :: "string \<Rightarrow> pyexc + json"
  run_cleanup_operation :: "json \<Rightarrow> pyexc + json"

text \<open>The body of a response is either empty or \<open>json.dumps(v, indent=k).encode()\<close>.
  Sending the status line, the headers and the body is taken to succeed.\<close>

datatype body = NoBody | JsonDumps "nat option" json

record response =
  status_code :: nat
  headers :: "(string \<times> string) list"
  body :: body

definition json_response :: "nat \<Rightarrow> nat option \<Rightarrow> json \<Rightarrow> response" where
  "json_response code indent v =
     \<lparr>status_code = code, headers = [(''Content-type'', ''application/json'')],
      body = JsonDumps indent v\<rparr>"

text \<open>The result of handling one request: the value of the global \<open>last_cleanup_result\<close>
  afterwards, the response written (or the exception that left the handler), and the
  argument \<open>run_cleanup_operation\<close> was called with, if it was called.\<close>

record outcome =
  result_after :: json
  reply :: "pyexc + response"
  cleanup_arg :: "json option"

section \<open>The fallback server (lines 122 to 244)\<close>

definition last_cleanup_result :: json where
  "last_cleanup_result =
     JDict [(''timestamp'', JNull),
            (''status'', JStr ''never_run''),
            (''message'', JStr ''Cleanup unavailable in fallback mode'')]"

text \<open>\<open>do_GET\<close>; \<open>e\<close> is the \<open>ImportError\<close> bound by line 112.\<close>

definition do_GET :: "pyexc \<Rightarrow> env \<Rightarrow> json \<Rightarrow> request \<Rightarrow> outcome" where
  "do_GET e env lcr req =
     \<lparr>result_after = lcr,
      reply = Inr
        (if path req = ''/api/cleanup/status'' then json_response 200 (Some 2) lcr
         else if path req \<in> set [''/api/cleanup/health'', ''/health'', ''/''] then
           json_response 200 (Some 2)
             (JDict [(''status'', JStr ''degraded''),
                     (''message'', JStr
                        ''Crawler failed due to dependency conflicts - running fallback server''),
                     (''timestamp'', JStr (now_iso env)),
                     (''error'', JStr (exc_str e)),
                     (''fix_attempted'', JBool True),
                     (''cleanup_api'', JStr ''available'')])
         else
           json_response 200 None
             (JDict [(''status'', JStr ''degraded''), (''message'', JStr ''Fallback mode'')])),
      cleanup_arg = None\<rparr>"

text \<open>Lines 163 and 164: the length is \<open>int\<close> of the header, or of the default \<open>0\<close>;
  the body is read only when the length is positive and is \<open>b'{}'\<close> otherwise.\<close>

definition read_body :: "env \<Rightarrow> request \<Rightarrow> pyexc + string" where
  "read_body env req =
     (case (case content_length req of None \<Rightarrow> Inr 0 | Some s \<Rightarrow> py_int env s) of
        Inl err \<Rightarrow> Inl err
      | Inr n \<Rightarrow> if n > 0 then rfile_read req n else Inr ''{}'')"

text \<open>Lines 167 to 171: the bare \<open>except:\<close> catches whatever parsing or \<open>data.get\<close>
  raises.\<close>

definition parse_retention :: "env \<Rightarrow> string \<Rightarrow> json" where
  "parse_retention env b =
     (case json_loads env b of
        Inl _ \<Rightarrow> JInt 24
      | Inr data \<Rightarrow>
          (case py_get data ''retention_hours'' (JInt 24) of
             Inl _ \<Rightarrow> JInt 24
           | Inr retention_hours \<Rightarrow> retention_hours))"

text \<open>Lines 211 to 222, the handler of \<open>except Exception as cleanup_error\<close>.\<close>

definition error_response :: "env \<Rightarrow> pyexc \<Rightarrow> json" where
  "error_response env cleanup_error =
     JDict [(''status'', JStr ''error''),
            (''message'', JStr (''Cleanup failed in fallback mode: '' @ exc_str cleanup_error)),
            (''timestamp'', JStr (utcnow_iso env))]"

definition cleanup_failed :: "env \<Rightarrow> json \<Rightarrow> pyexc \<Rightarrow> json \<Rightarrow> outcome" where
  "cleanup_failed env lcr cleanup_error retention_hours =
     (if is_Exception cleanup_error then
        \<lparr>result_after = error_response env cleanup_error,
         reply = Inr (json_response 500 (Some 2) (error_response env cleanup_error)),
         cleanup_arg = Some retention_hours\<rparr>
      else
        \<lparr>result_after = lcr, reply = Inl cleanup_error, cleanup_arg = Some retention_hours\<rparr>)"

text \<open>Lines 176 to 222: the inner \<open>try\<close>. The result is stored (line 192) before its
  \<open>status\<close> is read (line 195), so an \<open>AttributeError\<close> of \<open>result.get\<close> reaches the
  handler with the result already stored; the handler then stores the error result.\<close>

definition run_cleanup :: "env \<Rightarrow> json \<Rightarrow> json \<Rightarrow> outcome" where
  "run_cleanup env lcr retention_hours =
     (case run_cleanup_operation env retention_hours of
        Inl cleanup_error \<Rightarrow> cleanup_failed env lcr cleanup_error retention_hours
      | Inr result \<Rightarrow>
          (case py_get result ''status'' JNull of
             Inl cleanup_error \<Rightarrow> cleanup_failed env result cleanup_error retention_hours
           | Inr st \<Rightarrow>
               \<lparr>result_after = result,
                reply = Inr (json_response (if st = JStr ''success'' then 200 else 500)
                               (Some 2) result),
                cleanup_arg = Some retention_hours\<rparr>))"

text \<open>\<open>do_POST\<close>. The outer \<open>except Exception as e\<close> (lines 224 to 230) answers a failure
  to read the body; an object that is not an \<open>Exception\<close> leaves the handler.\<close>

definition do_POST :: "env \<Rightarrow> json \<Rightarrow> request \<Rightarrow> outcome" where
  "do_POST env lcr req =
     (if path req = ''/api/cleanup'' then
        (case read_body env req of
           Inl err \<Rightarrow>
             \<lparr>result_after = lcr,
              reply = (if is_Exception err then
                         Inr (json_response 500 None
                                (JDict [(''error'', JStr (exc_str err)),
                                        (''timestamp'', JStr (utcnow_iso env))]))
                       else Inl err),
              cleanup_arg = None\<rparr>
         | Inr b \<Rightarrow> run_cleanup env lcr (parse_retention env b))
      else
        \<lparr>result_after = lcr,
         reply = Inr (json_response 404 None
                        (JDict [(''error'', JStr ''Not Found''), (''path'', JStr (path req))])),
         cleanup_arg = None\<rparr>)"

definition do_HEAD :: "json \<Rightarrow> request \<Rightarrow> outcome" where
  "do_HEAD lcr req =
     \<lparr>result_after = lcr,
      reply = Inr \<lparr>status_code = 200, headers = [], body = NoBody\<rparr>,
      cleanup_arg = None\<rparr>"

text \<open>\<open>MinimalHealthHandler\<close>: the base class calls \<open>do_\<close> followed by the method name.\<close>

definition MinimalHealthHandler :: "pyexc \<Rightarrow> env \<Rightarrow> json \<Rightarrow> request \<Rightarrow> outcome" where
  "MinimalHealthHandler e env lcr req =
     (case command req of
        GET \<Rightarrow> do_GET e env lcr req
      | POST \<Rightarrow> do_POST env lcr req
      | HEAD \<Rightarrow> do_HEAD lcr req)"

text \<open>The server handles one request after another on the same global. An exception
  that leaves a handler is not an \<open>Exception\<close>, so it also leaves \<open>serve_forever\<close>:
  no later request is served.\<close>

fun serve :: "pyexc \<Rightarrow> json \<Rightarrow> (env \<times> request) list \<Rightarrow> json \<times> response list \<times> pyexc option"
  where
  "serve e lcr [] = (lcr, [], None)"
| "serve e lcr ((env, req) # rest) =
     (let out = MinimalHealthHandler e env lcr req in
      case reply out of
        Inl err \<Rightarrow> (result_after out, [], Some err)
      | Inr r \<Rightarrow>
          (case serve e (result_after out) rest of
             (lcr', rs, stop) \<Rightarrow> (lcr', r # rs, stop)))"

section \<open>The supervisor (lines 105 to 273)\<close>

text \<open>Lines 109 and 110, \<open>from azure_startup_main import main; main()\<close>: the call blocks
  for good, returns, or raises (a failed import raises too).\<close>

datatype launch_result = MainRunsForever | MainReturned | MainRaised pyexc

text \<open>Lines 249 to 254, \<open>HTTPServer(('0.0.0.0', port), MinimalHealthHandler)\<close> followed by
  \<open>serve_forever()\<close>: the server serves for good or one of the two calls raises.\<close>

datatype server_result = ServesForever | ServerRaised pyexc

record sup_env =
  launch :: launch_result
  env_PORT :: "string option"
  int_of :: "string \<Rightarrow> pyexc + int"
  start_server :: "int \<Rightarrow> server_result"

text \<open>The lines the script prints, without their timestamps, and its sleeps.\<close>

datatype log_line =
    FailedToImport pyexc
  | StartingFallback
  | FallbackFailed pyexc
  | EnteringWaitLoop
  | StillAlive
  | StartupFailed pyexc
  | KeepingAlive

datatype event = Sleep nat | Print log_line

text \<open>Where the script is: in the \<open>try\<close> of line 107; in the handler of line 112 before
  the server is up; inside \<open>serve_forever\<close>; in the loop of line 259; in the handler of
  line 263; inside the primary application; or ended, by running off its last line or by
  an uncaught exception.\<close>

datatype tier =
    Launching
  | Degraded pyexc
  | Serving pyexc int
  | KeepAlive
  | DebugWait
  | PrimaryRunning
  | Exited "pyexc option"

text \<open>Line 273 reads \<open>datetime\<close>, which only line 120, inside the other handler, binds.\<close>

definition NameError_datetime :: pyexc where
  "NameError_datetime = PyExc ExceptionC (''name '' @ quoted ''datetime'' @ '' is not defined'')"

text \<open>Line 247: \<open>int(os.environ.get('PORT', 8000))\<close>, outside the \<open>try\<close> of line 248.\<close>

definition port_of :: "sup_env \<Rightarrow> pyexc + int" where
  "port_of w = (case env_PORT w of None \<Rightarrow> Inr 8000 | Some s \<Rightarrow> int_of w s)"

text \<open>One step of the script: what it prints and sleeps, and where it is next. An
  exception raised inside an \<open>except\<close> block is not caught by the blocks beside it.\<close>

fun sup_step :: "sup_env \<Rightarrow> tier \<Rightarrow> event list \<times> tier" where
  "sup_step w Launching =
     (case launch w of
        MainRunsForever \<Rightarrow> ([], PrimaryRunning)
      | MainReturned \<Rightarrow> ([], Exited None)
      | MainRaised e \<Rightarrow>
          if is_ImportError e then ([Print (FailedToImport e)], Degraded e)
          else if is_Exception e then ([Print (StartupFailed e), Print KeepingAlive], DebugWait)
          else ([], Exited (Some e)))"
| "sup_step w (Degraded e) =
     (case port_of w of
        Inl err \<Rightarrow> ([Print StartingFallback], Exited (Some err))
      | Inr port \<Rightarrow>
          (case start_server w port of
             ServesForever \<Rightarrow> ([Print StartingFallback], Serving e port)
           | ServerRaised server_error \<Rightarrow>
               if is_Exception server_error then
                 ([Print StartingFallback, Print (FallbackFailed server_error),
                   Print EnteringWaitLoop], KeepAlive)
               else ([Print StartingFallback], Exited (Some server_error))))"
| "sup_step w (Serving e port) = ([], Serving e port)"
| "sup_step w KeepAlive = ([Sleep 60, Print StillAlive], KeepAlive)"
| "sup_step w DebugWait = ([Sleep 300], Exited (Some NameError_datetime))"
| "sup_step w PrimaryRunning = ([], PrimaryRunning)"
| "sup_step w (Exited x) = ([], Exited x)"

text \<open>\<open>n\<close> steps from a tier: everything printed and slept, and the tier reached.\<close>

fun sup_run :: "nat \<Rightarrow> sup_env \<Rightarrow> tier \<Rightarrow> event list \<times> tier" where
  "sup_run 0 w t = ([], t)"
| "sup_run (Suc n) w t =
     (case sup_step w t of
        (evs, t') \<Rightarrow> (case sup_run n w t' of (evs', t'') \<Rightarrow> (evs @ evs', t'')))"

text \<open>While the script is inside \<open>serve_forever\<close>, requests are answered by the handler
  class, whose \<open>do_GET\<close> reads the \<open>e\<close> of line 112.\<close>

fun handler_of :: "tier \<Rightarrow> (env \<Rightarrow> json \<Rightarrow> request \<Rightarrow> outcome) option" where
  "handler_of (Serving e port) = Some (MinimalHealthHandler e)"
| "handler_of t = None"

section \<open>Vocabulary of the specification\<close>

text \<open>The field of a JSON object, if the value is an object that has it.\<close>

fun field :: "json \<Rightarrow> string \<Rightarrow> json option" where
  "field (JDict kvs) k = map_of kvs k"
| "field v k = None"

text \<open>The routes the specification lists, in its words: GET of \<open>/\<close>, \<open>/health\<close>,
  \<open>/api/cleanup/health\<close> and \<open>/api/cleanup/status\<close>, POST of \<open>/api/cleanup\<close>, HEAD of
  \<open>/\<close>.\<close>

definition spec_listed_route :: "http_method \<Rightarrow> string \<Rightarrow> bool" where
  "spec_listed_route m p =
     (m = GET \<and> p \<in> set [''/'', ''/health'', ''/api/cleanup/health'', ''/api/cleanup/status'']
      \<or> m = POST \<and> p = ''/api/cleanup''
      \<or> m = HEAD \<and> p = ''/'')"

text \<open>The answer the specification gives for every other route: 404 with the body
  \<open>{error: "Not Found", path: <the requested path>}\<close>.\<close>

definition spec_not_found :: "string \<Rightarrow> response" where
  "spec_not_found p =
     json_response 404 None (JDict [(''error'', JStr ''Not Found''), (''path'', JStr p)])"

text \<open>A parse result that carries a \<open>retention_hours\<close> field: a JSON object with that
  key. A failed parse and a JSON value that is not an object carry none.\<close>

fun names_retention_hours :: "pyexc + json \<Rightarrow> bool" where
  "names_retention_hours (Inr (JDict kvs)) = (map_of kvs ''retention_hours'' \<noteq> None)"
| "names_retention_hours r = False"

text \<open>A request whose body is absent or empty: no \<open>Content-Length\<close> header, or one that
  reads as a number that is not positive.\<close>

definition no_body :: "env \<Rightarrow> request \<Rightarrow> bool" where
  "no_body env req =
     (case content_length req of
        None \<Rightarrow> True
      | Some s \<Rightarrow> (case py_int env s of Inl _ \<Rightarrow> False | Inr n \<Rightarrow> n \<le> 0))"

text \<open>The tiers in which the fallback server is being started or is running.\<close>

fun in_degraded :: "tier \<Rightarrow> bool" where
  "in_degraded (Degraded e) = True"
| "in_degraded (Serving e port) = True"
| "in_degraded t = False"

text \<open>Any request turned into \<open>GET /api/cleanup/status\<close>.\<close>

definition status_request :: "request \<Rightarrow> request" where
  "status_request req = req\<lparr>command := GET, path := ''/api/cleanup/status''\<rparr>"

section \<open>Sample inputs\<close>

definition dquoted :: "string \<Rightarrow> string" where
  "dquoted s = CHR 0x22 # s @ [CHR 0x22]"

text \<open>The 23 bytes \<open>{"retention_hours": -5}\<close> and the 26 bytes
  \<open>{"retention_hours": "abc"}\<close>.\<close>

definition body_minus5 :: string where
  "body_minus5 = ''{'' @ dquoted ''retention_hours'' @ '': -5}''"

definition body_abc :: string where
  "body_abc = ''{'' @ dquoted ''retention_hours'' @ '': '' @ dquoted ''abc'' @ ''}''"

definition no_module :: pyexc where
  "no_module = PyExc ImportErrorC (''No module named '' @ quoted ''azure_startup_main'')"

definition boom :: pyexc where
  "boom = PyExc ExceptionC ''boom''"

text \<open>The stub of the specification's scenario: a cleanup operation that succeeds and
  reports the retention it was given.\<close>

definition stub_result :: "json \<Rightarrow> json" where
  "stub_result rh =
     JDict [(''status'', JStr ''success''), (''timestamp'', JStr ''T''),
            (''retention_hours_applied'', rh)]"

definition sample_env :: env where
  "sample_env =
     \<lparr>now_iso = ''2025-01-01T12:00:00'',
      utcnow_iso = ''2025-01-01T11:00:00'',
      py_int = (\<lambda>s. if s = ''0'' then Inr 0 else if s = ''8'' then Inr 8
                     else if s = ''23'' then Inr 23 else if s = ''26'' then Inr 26
                     else Inl (PyExc ExceptionC ''invalid literal for int() with base 10'')),
      json_loads = (\<lambda>b. if b = ''{}'' then Inr (JDict [])
                         else if b = body_minus5 then Inr (JDict [(''retention_hours'', JInt (- 5))])
                         else if b = body_abc then Inr (JDict [(''retention_hours'', JStr ''abc'')])
                         else Inl (PyExc ExceptionC ''Expecting value'')),
      run_cleanup_operation = (\<lambda>rh. Inr (stub_result rh))\<rparr>"

definition failing_env :: env where
  "failing_env = sample_env\<lparr>run_cleanup_operation := (\<lambda>rh. Inl boom)\<rparr>"

definition sample_request :: "http_method \<Rightarrow> string \<Rightarrow> string option \<Rightarrow> string \<Rightarrow> request" where
  "sample_request m p cl bytes =
     \<lparr>command = m, path = p, content_length = cl,
      rfile_read = (\<lambda>n. Inr (take (nat n) bytes))\<rparr>"

text \<open>Three worlds: \<open>main()\<close> raises a plain \<open>Exception\<close>; the import fails and the server
  starts; the import fails and the server cannot bind.\<close>

definition crash_world :: sup_env where
  "crash_world =
     \<lparr>launch = MainRaised boom, env_PORT = None,
      int_of = (\<lambda>s. Inl (PyExc ExceptionC ''invalid literal for int() with base 10'')),
      start_server = (\<lambda>port. ServesForever)\<rparr>"

definition import_world :: sup_env where
  "import_world = crash_world\<lparr>launch := MainRaised no_module\<rparr>"

definition bind_world :: sup_env where
  "bind_world = import_world\<lparr>start_server := (\<lambda>port. ServerRaised boom)\<rparr>"

text \<open>A fourth world: the import fails and \<open>PORT\<close> is set to \<open>abc\<close>, on which \<open>int\<close>
  raises a \<open>ValueError\<close>; the server itself would start.\<close>

definition ValueError_abc :: pyexc where
  "ValueError_abc =
     PyExc ExceptionC (''invalid literal for int() with base 10: '' @ quoted ''abc'')"

definition bad_port_world :: sup_env where
  "bad_port_world =
     \<lparr>launch = MainRaised no_module, env_PORT = Some ''abc'',
      int_of = (\<lambda>s. if s = ''8000'' then Inr 8000 else if s = ''abc'' then Inl ValueError_abc
                     else Inl (PyExc ExceptionC ''invalid literal for int() with base 10'')),
      start_server = (\<lambda>port. ServesForever)\<rparr>"

section \<open>Properties of the fallback server\<close>

lemma cleanup_arg_run_cleanup: "cleanup_arg (run_cleanup env lcr rh) = Some rh"
  by (simp add: run_cleanup_def cleanup_failed_def split: sum.splits)


lemma handler_keeps_result:
  assumes "\<not> (command req = POST \<and> path req = ''/api/cleanup'')"
  shows "result_after (MinimalHealthHandler e env lcr req) = lcr
         \<and> (\<exists>r. reply (MinimalHealthHandler e env lcr req) = Inr r)"
  using assms
  by (cases "command req")
     (auto simp: MinimalHealthHandler_def do_GET_def do_POST_def do_HEAD_def)

lemma serve_keeps_result:
  assumes "\<forall>(env, q) \<in> set reqs. \<not> (command q = POST \<and> path q = ''/api/cleanup'')"
  shows "fst (serve e lcr reqs) = lcr \<and> snd (snd (serve e lcr reqs)) = None
         \<and> length (fst (snd (serve e lcr reqs))) = length reqs"
  using assms
proof (induction reqs)
  case Nil
  then show ?case by simp
next
  case (Cons a reqs)
  obtain env q where a: "a = (env, q)" by (cases a)
  with Cons.prems have nq: "\<not> (command q = POST \<and> path q = ''/api/cleanup'')" by simp
  from handler_keeps_result[OF nq, of e env lcr]
  obtain r where r: "reply (MinimalHealthHandler e env lcr q) = Inr r"
    and k: "result_after (MinimalHealthHandler e env lcr q) = lcr" by blast
  from Cons have ih: "fst (serve e lcr reqs) = lcr \<and> snd (snd (serve e lcr reqs)) = None
     \<and> length (fst (snd (serve e lcr reqs))) = length reqs" by simp
  show ?case using a r k ih by (auto simp: Let_def split: prod.splits)
qed

lemma get_status:
  "MinimalHealthHandler e env lcr (status_request req) =
     \<lparr>result_after = lcr, reply = Inr (json_response 200 (Some 2) lcr), cleanup_arg = None\<rparr>"
  by (simp add: status_request_def MinimalHealthHandler_def do_GET_def)

text \<open>
  C2, as the code has it. A POST to any path other than \<open>/api/cleanup\<close> is answered 404
  with the body \<open>{error: "Not Found", path: <the requested path>}\<close>. A GET of a path that
  is not a listed GET route is answered 200 with the body
  \<open>{status: "degraded", message: "Fallback mode"}\<close>, and a HEAD of any path is answered
  200 with no body. None of the three touches the stored cleanup result.
\<close>

theorem unlisted_routes:
  "(path req \<noteq> ''/api/cleanup'' \<longrightarrow>
      MinimalHealthHandler e env lcr (req\<lparr>command := POST\<rparr>) =
        \<lparr>result_after = lcr, reply = Inr (spec_not_found (path req)), cleanup_arg = None\<rparr>)
   \<and> (\<not> spec_listed_route GET (path req) \<longrightarrow>
      MinimalHealthHandler e env lcr (req\<lparr>command := GET\<rparr>) =
        \<lparr>result_after = lcr,
         reply = Inr (json_response 200 None
                        (JDict [(''status'', JStr ''degraded''),
                                (''message'', JStr ''Fallback mode'')])),
         cleanup_arg = None\<rparr>)
   \<and> MinimalHealthHandler e env lcr (req\<lparr>command := HEAD\<rparr>) =
        \<lparr>result_after = lcr,
         reply = Inr \<lparr>status_code = 200, headers = [], body = NoBody\<rparr>,
         cleanup_arg = None\<rparr>"
  by (simp add: MinimalHealthHandler_def do_POST_def do_GET_def do_HEAD_def spec_not_found_def
        spec_listed_route_def)

theorem unlisted_routes_witness:
  "MinimalHealthHandler no_module sample_env last_cleanup_result
     (sample_request POST ''/nope'' None []) =
     \<lparr>result_after = last_cleanup_result, reply = Inr (spec_not_found ''/nope''),
      cleanup_arg = None\<rparr>
   \<and> MinimalHealthHandler no_module sample_env last_cleanup_result
     (sample_request GET ''/nope'' None []) =
     \<lparr>result_after = last_cleanup_result,
      reply = Inr (json_response 200 None
                (JDict [(''status'', JStr ''degraded''), (''message'', JStr ''Fallback mode'')])),
      cleanup_arg = None\<rparr>
   \<and> MinimalHealthHandler no_module sample_env last_cleanup_result
     (sample_request HEAD ''/nope'' None []) =
     \<lparr>result_after = last_cleanup_result,
      reply = Inr \<lparr>status_code = 200, headers = [], body = NoBody\<rparr>,
      cleanup_arg = None\<rparr>"
  using unlisted_routes[of "sample_request POST ''/nope'' None []" no_module sample_env
      last_cleanup_result]
  by (simp add: sample_request_def spec_listed_route_def)

text \<open>
  C2 as stated fails: \<open>GET /nope\<close> and \<open>HEAD /nope\<close> are not listed routes, and neither
  is answered with the 404 response; both are answered 200.
\<close>

theorem unlisted_get_head_not_404:
  "\<not> spec_listed_route GET ''/nope''
   \<and> reply (MinimalHealthHandler no_module sample_env last_cleanup_result
        (sample_request GET ''/nope'' None [])) \<noteq> Inr (spec_not_found ''/nope'')
   \<and> reply (MinimalHealthHandler no_module sample_env last_cleanup_result
        (sample_request GET ''/nope'' None [])) =
      Inr (json_response 200 None
             (JDict [(''status'', JStr ''degraded''), (''message'', JStr ''Fallback mode'')]))
   \<and> \<not> spec_listed_route HEAD ''/nope''
   \<and> reply (MinimalHealthHandler no_module sample_env last_cleanup_result
        (sample_request HEAD ''/nope'' None [])) =
      Inr \<lparr>status_code = 200, headers = [], body = NoBody\<rparr>"
  by (simp add: spec_listed_route_def MinimalHealthHandler_def do_GET_def do_HEAD_def
      sample_request_def spec_not_found_def json_response_def)

text \<open>
  C3. When a POST to \<open>/api/cleanup\<close> reaches the cleanup operation and the operation
  returns a result (a JSON object), the response status is 200 if the result's \<open>status\<close>
  field is the string \<open>success\<close> and 500 otherwise (another value, or no such field); in
  both cases the body is the whole result, and the result is stored.
\<close>

theorem cleanup_result_status:
  assumes "command req = POST" and "path req = ''/api/cleanup''"
    and "read_body env req = Inr b"
    and "run_cleanup_operation env (parse_retention env b) = Inr (JDict kvs)"
  shows "MinimalHealthHandler e env lcr req =
           \<lparr>result_after = JDict kvs,
            reply = Inr (json_response
                           (if field (JDict kvs) ''status'' = Some (JStr ''success'')
                            then 200 else 500)
                           (Some 2) (JDict kvs)),
            cleanup_arg = Some (parse_retention env b)\<rparr>"
  using assms
  by (auto simp: MinimalHealthHandler_def do_POST_def run_cleanup_def split: option.splits)

theorem cleanup_result_status_witness:
  "MinimalHealthHandler no_module sample_env last_cleanup_result
     (sample_request POST ''/api/cleanup'' (Some ''23'') body_minus5) =
     \<lparr>result_after = stub_result (JInt (- 5)),
      reply = Inr (json_response 200 (Some 2) (stub_result (JInt (- 5)))),
      cleanup_arg = Some (JInt (- 5))\<rparr>
   \<and> MinimalHealthHandler no_module
       (sample_env\<lparr>run_cleanup_operation := (\<lambda>rh. Inr (JDict [(''status'', JStr ''error'')]))\<rparr>)
       last_cleanup_result (sample_request POST ''/api/cleanup'' None []) =
     \<lparr>result_after = JDict [(''status'', JStr ''error'')],
      reply = Inr (json_response 500 (Some 2) (JDict [(''status'', JStr ''error'')])),
      cleanup_arg = Some (JInt 24)\<rparr>"
  using cleanup_result_status[of "sample_request POST ''/api/cleanup'' (Some ''23'') body_minus5"
      sample_env body_minus5
      "[(''status'', JStr ''success''), (''timestamp'', JStr ''T''),
        (''retention_hours_applied'', JInt (- 5))]" no_module last_cleanup_result]
    cleanup_result_status[of "sample_request POST ''/api/cleanup'' None []"
      "sample_env\<lparr>run_cleanup_operation := (\<lambda>rh. Inr (JDict [(''status'', JStr ''error'')]))\<rparr>"
      "''{}''" "[(''status'', JStr ''error'')]" no_module last_cleanup_result]
  by (simp add: sample_request_def sample_env_def read_body_def parse_retention_def
      stub_result_def body_minus5_def dquoted_def)

text \<open>
  C4. When a POST to \<open>/api/cleanup\<close> reaches the cleanup operation and invoking it raises
  an exception (an instance of \<open>Exception\<close>, which is what the handler of line 206
  catches), the response is 500, its body is an object whose \<open>status\<close> is \<open>error\<close> and
  whose \<open>message\<close> is a non-empty string embedding the raised error, and the stored
  cleanup result is that same object.
\<close>

theorem cleanup_raises_error_result:
  assumes "command req = POST" and "path req = ''/api/cleanup''"
    and "read_body env req = Inr b"
    and "run_cleanup_operation env (parse_retention env b) = Inl cleanup_error"
    and "is_Exception cleanup_error"
  shows "\<exists>m. m \<noteq> [] \<and>
           field (result_after (MinimalHealthHandler e env lcr req)) ''status'' =
             Some (JStr ''error'') \<and>
           field (result_after (MinimalHealthHandler e env lcr req)) ''message'' =
             Some (JStr (m @ exc_str cleanup_error)) \<and>
           reply (MinimalHealthHandler e env lcr req) =
             Inr (json_response 500 (Some 2)
                    (result_after (MinimalHealthHandler e env lcr req)))"
  using assms
  by (simp add: MinimalHealthHandler_def do_POST_def run_cleanup_def cleanup_failed_def
        error_response_def)

theorem cleanup_raises_error_result_witness:
  "is_Exception boom \<and>
   result_after (MinimalHealthHandler no_module failing_env last_cleanup_result
     (sample_request POST ''/api/cleanup'' None [])) =
     JDict [(''status'', JStr ''error''),
            (''message'', JStr ''Cleanup failed in fallback mode: boom''),
            (''timestamp'', JStr ''2025-01-01T11:00:00'')] \<and>
   reply (MinimalHealthHandler no_module failing_env last_cleanup_result
     (sample_request POST ''/api/cleanup'' None [])) =
     Inr (json_response 500 (Some 2)
            (JDict [(''status'', JStr ''error''),
                    (''message'', JStr ''Cleanup failed in fallback mode: boom''),
                    (''timestamp'', JStr ''2025-01-01T11:00:00'')]))"
proof -
  let ?req = "sample_request POST ''/api/cleanup'' None []"
  let ?out = "MinimalHealthHandler no_module failing_env last_cleanup_result ?req"
  have p1: "command ?req = POST" and p2: "path ?req = ''/api/cleanup''"
    by (simp_all add: sample_request_def)
  have p3: "read_body failing_env ?req = Inr ''{}''"
    by (simp add: read_body_def sample_request_def)
  have p4: "run_cleanup_operation failing_env (parse_retention failing_env ''{}'') = Inl boom"
    by (simp add: failing_env_def)
  have h: "is_Exception boom"
    by (simp add: boom_def is_Exception_def)
  have r: "result_after ?out =
     JDict [(''status'', JStr ''error''),
            (''message'', JStr ''Cleanup failed in fallback mode: boom''),
            (''timestamp'', JStr ''2025-01-01T11:00:00'')]"
    using p3 p4 h
    by (simp add: MinimalHealthHandler_def do_POST_def run_cleanup_def cleanup_failed_def
        error_response_def sample_request_def failing_env_def sample_env_def boom_def)
  from cleanup_raises_error_result[OF p1 p2 p3 p4 h, of no_module last_cleanup_result]
  have "reply ?out = Inr (json_response 500 (Some 2) (result_after ?out))"
    by blast
  with h r show ?thesis by simp
qed

text \<open>
  C5. For a POST to \<open>/api/cleanup\<close> whose body is absent or empty (no \<open>Content-Length\<close>,
  or a length that is not positive), or whose body was read and does not parse, or parses
  to a value that has no \<open>retention_hours\<close> field, the cleanup operation is called with
  24, and the request is answered by the cleanup step alone: the outcome is that of
  running the cleanup with 24. (\<open>json.loads\<close> of \<open>{}\<close> is the empty object.)
\<close>

theorem malformed_body_defaults_24:
  assumes "command req = POST" and "path req = ''/api/cleanup''"
    and "no_body env req \<and> json_loads env ''{}'' = Inr (JDict [])
         \<or> (\<exists>b. read_body env req = Inr b \<and> \<not> names_retention_hours (json_loads env b))"
  shows "MinimalHealthHandler e env lcr req = run_cleanup env lcr (JInt 24)
         \<and> cleanup_arg (MinimalHealthHandler e env lcr req) = Some (JInt 24)"
proof -
  have "\<exists>b. read_body env req = Inr b \<and> \<not> names_retention_hours (json_loads env b)"
    using assms(3)
  proof
    assume h: "no_body env req \<and> json_loads env ''{}'' = Inr (JDict [])"
    then have "read_body env req = Inr ''{}''"
      by (auto simp: no_body_def read_body_def split: option.splits sum.splits)
    with h show ?thesis by simp
  qed
  then obtain b where b: "read_body env req = Inr b"
    and nb: "\<not> names_retention_hours (json_loads env b)" by blast
  have "parse_retention env b = JInt 24"
  proof (cases "json_loads env b")
    case (Inl err)
    then show ?thesis by (simp add: parse_retention_def)
  next
    case (Inr data)
    with nb show ?thesis
      by (cases data) (auto simp: parse_retention_def split: option.splits)
  qed
  with b assms(1,2) have "MinimalHealthHandler e env lcr req = run_cleanup env lcr (JInt 24)"
    by (simp add: MinimalHealthHandler_def do_POST_def)
  then show ?thesis by (simp add: cleanup_arg_run_cleanup)
qed

theorem malformed_body_defaults_24_witness:
  "cleanup_arg (MinimalHealthHandler no_module sample_env last_cleanup_result
     (sample_request POST ''/api/cleanup'' None [])) = Some (JInt 24)
   \<and> cleanup_arg (MinimalHealthHandler no_module sample_env last_cleanup_result
     (sample_request POST ''/api/cleanup'' (Some ''0'') [])) = Some (JInt 24)
   \<and> cleanup_arg (MinimalHealthHandler no_module sample_env last_cleanup_result
     (sample_request POST ''/api/cleanup'' (Some ''8'') ''not json'')) = Some (JInt 24)
   \<and> reply (MinimalHealthHandler no_module sample_env last_cleanup_result
     (sample_request POST ''/api/cleanup'' (Some ''8'') ''not json'')) =
     Inr (json_response 200 (Some 2) (stub_result (JInt 24)))"
proof -
  let ?absent = "sample_request POST ''/api/cleanup'' None []"
  let ?empty = "sample_request POST ''/api/cleanup'' (Some ''0'') []"
  let ?bad = "sample_request POST ''/api/cleanup'' (Some ''8'') ''not json''"
  have l: "json_loads sample_env ''{}'' = Inr (JDict [])"
    by (simp add: sample_env_def)
  have a: "no_body sample_env ?absent" and z: "no_body sample_env ?empty"
    by (simp_all add: no_body_def sample_request_def sample_env_def)
  have r: "read_body sample_env ?bad = Inr ''not json''"
    by (simp add: read_body_def sample_request_def sample_env_def)
  have n: "\<not> names_retention_hours (json_loads sample_env ''not json'')"
    by (simp add: sample_env_def body_minus5_def body_abc_def dquoted_def)
  have c: "command ?absent = POST" "path ?absent = ''/api/cleanup''"
    "command ?empty = POST" "path ?empty = ''/api/cleanup''"
    "command ?bad = POST" "path ?bad = ''/api/cleanup''"
    by (simp_all add: sample_request_def)
  have s: "run_cleanup sample_env last_cleanup_result (JInt 24) =
     \<lparr>result_after = stub_result (JInt 24),
      reply = Inr (json_response 200 (Some 2) (stub_result (JInt 24))),
      cleanup_arg = Some (JInt 24)\<rparr>"
    by (simp add: run_cleanup_def sample_env_def stub_result_def)
  from malformed_body_defaults_24[of ?absent sample_env no_module last_cleanup_result] c a l
  have 1: "cleanup_arg (MinimalHealthHandler no_module sample_env last_cleanup_result ?absent)
     = Some (JInt 24)" by blast
  from malformed_body_defaults_24[of ?empty sample_env no_module last_cleanup_result] c z l
  have 2: "cleanup_arg (MinimalHealthHandler no_module sample_env last_cleanup_result ?empty)
     = Some (JInt 24)" by blast
  from malformed_body_defaults_24[of ?bad sample_env no_module last_cleanup_result] c r n
  have 3: "MinimalHealthHandler no_module sample_env last_cleanup_result ?bad =
     run_cleanup sample_env last_cleanup_result (JInt 24)" by blast
  from 1 2 3 s show ?thesis by simp
qed

text \<open>
  C10. When the body of a POST to \<open>/api/cleanup\<close> parses to a JSON object that has a
  \<open>retention_hours\<close> field, the cleanup operation is called with that value \<open>v\<close>,
  whatever it is: it is neither checked nor replaced by 24. What the request stores and
  answers is what the operation does on \<open>v\<close>: the object it returns for \<open>v\<close>, with 200
  or 500 by its \<open>status\<close>; the error result of lines 211 to 215 for a value returned
  for \<open>v\<close> that is not an object, or for an \<open>Exception\<close> raised on \<open>v\<close>; and any
  other raised object leaves the handler with the stored result untouched.
\<close>

theorem retention_hours_passthrough:
  assumes "command req = POST" and "path req = ''/api/cleanup''"
    and "read_body env req = Inr b"
    and "json_loads env b = Inr (JDict kvs)"
    and "map_of kvs ''retention_hours'' = Some v"
  shows "cleanup_arg (MinimalHealthHandler e env lcr req) = Some v
     \<and> (case run_cleanup_operation env v of
           Inr (JDict out) \<Rightarrow>
             result_after (MinimalHealthHandler e env lcr req) = JDict out
             \<and> reply (MinimalHealthHandler e env lcr req) =
                 Inr (json_response
                        (if field (JDict out) ''status'' = Some (JStr ''success'')
                         then 200 else 500)
                        (Some 2) (JDict out))
         | Inr other \<Rightarrow>
             result_after (MinimalHealthHandler e env lcr req) =
               error_response env (AttributeError other ''get'')
             \<and> reply (MinimalHealthHandler e env lcr req) =
                 Inr (json_response 500 (Some 2)
                        (error_response env (AttributeError other ''get'')))
         | Inl cleanup_error \<Rightarrow>
             if is_Exception cleanup_error then
               result_after (MinimalHealthHandler e env lcr req) =
                 error_response env cleanup_error
               \<and> reply (MinimalHealthHandler e env lcr req) =
                   Inr (json_response 500 (Some 2) (error_response env cleanup_error))
             else
               result_after (MinimalHealthHandler e env lcr req) = lcr
               \<and> reply (MinimalHealthHandler e env lcr req) = Inl cleanup_error)"
proof -
  have h: "MinimalHealthHandler e env lcr req = run_cleanup env lcr v"
    using assms by (simp add: MinimalHealthHandler_def do_POST_def parse_retention_def)
  have r: "case run_cleanup_operation env v of
           Inr (JDict out) \<Rightarrow>
             result_after (run_cleanup env lcr v) = JDict out
             \<and> reply (run_cleanup env lcr v) =
                 Inr (json_response
                        (if field (JDict out) ''status'' = Some (JStr ''success'')
                         then 200 else 500)
                        (Some 2) (JDict out))
         | Inr other \<Rightarrow>
             result_after (run_cleanup env lcr v) =
               error_response env (AttributeError other ''get'')
             \<and> reply (run_cleanup env lcr v) =
                 Inr (json_response 500 (Some 2)
                        (error_response env (AttributeError other ''get'')))
         | Inl cleanup_error \<Rightarrow>
             if is_Exception cleanup_error then
               result_after (run_cleanup env lcr v) = error_response env cleanup_error
               \<and> reply (run_cleanup env lcr v) =
                   Inr (json_response 500 (Some 2) (error_response env cleanup_error))
             else
               result_after (run_cleanup env lcr v) = lcr
               \<and> reply (run_cleanup env lcr v) = Inl cleanup_error"
  proof (cases "run_cleanup_operation env v")
    case (Inl cleanup_error)
    then show ?thesis by (simp add: run_cleanup_def cleanup_failed_def)
  next
    case (Inr result)
    then show ?thesis
      by (cases result)
         (auto simp: run_cleanup_def cleanup_failed_def AttributeError_def is_Exception_def
            split: option.splits)
  qed
  show ?thesis unfolding h by (intro conjI cleanup_arg_run_cleanup r)
qed

theorem retention_hours_passthrough_witness:
  "MinimalHealthHandler no_module sample_env last_cleanup_result
     (sample_request POST ''/api/cleanup'' (Some ''23'') body_minus5) =
     \<lparr>result_after = stub_result (JInt (- 5)),
      reply = Inr (json_response 200 (Some 2) (stub_result (JInt (- 5)))),
      cleanup_arg = Some (JInt (- 5))\<rparr>
   \<and> MinimalHealthHandler no_module sample_env last_cleanup_result
     (sample_request POST ''/api/cleanup'' (Some ''26'') body_abc) =
     \<lparr>result_after = stub_result (JStr ''abc''),
      reply = Inr (json_response 200 (Some 2) (stub_result (JStr ''abc''))),
      cleanup_arg = Some (JStr ''abc'')\<rparr>
   \<and> stub_result (JInt (- 5)) \<noteq> stub_result (JInt 24)
   \<and> stub_result (JStr ''abc'') \<noteq> stub_result (JInt 24)"
proof -
  let ?m = "sample_request POST ''/api/cleanup'' (Some ''23'') body_minus5"
  let ?a = "sample_request POST ''/api/cleanup'' (Some ''26'') body_abc"
  let ?hm = "MinimalHealthHandler no_module sample_env last_cleanup_result ?m"
  let ?ha = "MinimalHealthHandler no_module sample_env last_cleanup_result ?a"
  have c: "command ?m = POST" "path ?m = ''/api/cleanup''"
    "command ?a = POST" "path ?a = ''/api/cleanup''"
    by (simp_all add: sample_request_def)
  have rm: "read_body sample_env ?m = Inr body_minus5"
    and ra: "read_body sample_env ?a = Inr body_abc"
    by (simp_all add: read_body_def sample_request_def sample_env_def body_minus5_def
        body_abc_def dquoted_def)
  have lm: "json_loads sample_env body_minus5 = Inr (JDict [(''retention_hours'', JInt (- 5))])"
    and la: "json_loads sample_env body_abc = Inr (JDict [(''retention_hours'', JStr ''abc'')])"
    by (simp_all add: sample_env_def body_minus5_def body_abc_def dquoted_def)
  have op: "run_cleanup_operation sample_env (JInt (- 5)) = Inr (stub_result (JInt (- 5)))"
    "run_cleanup_operation sample_env (JStr ''abc'') = Inr (stub_result (JStr ''abc''))"
    by (simp_all add: sample_env_def)
  from retention_hours_passthrough[OF c(1,2) rm lm, of "JInt (- 5)" no_module last_cleanup_result]
  have m: "cleanup_arg ?hm = Some (JInt (- 5)) \<and> result_after ?hm = stub_result (JInt (- 5))
     \<and> reply ?hm = Inr (json_response 200 (Some 2) (stub_result (JInt (- 5))))"
    by (simp add: op stub_result_def)
  from retention_hours_passthrough[OF c(3,4) ra la, of "JStr ''abc''" no_module last_cleanup_result]
  have a: "cleanup_arg ?ha = Some (JStr ''abc'') \<and> result_after ?ha = stub_result (JStr ''abc'')
     \<and> reply ?ha = Inr (json_response 200 (Some 2) (stub_result (JStr ''abc'')))"
    by (simp add: op stub_result_def)
  have d: "stub_result (JInt (- 5)) \<noteq> stub_result (JInt 24)"
    "stub_result (JStr ''abc'') \<noteq> stub_result (JInt 24)"
    by (simp_all add: stub_result_def)
  have eq: "\<And>o1 x y z. result_after o1 = x \<Longrightarrow> reply o1 = y \<Longrightarrow> cleanup_arg o1 = z \<Longrightarrow>
     o1 = \<lparr>result_after = x, reply = y, cleanup_arg = z\<rparr>"
    by auto
  from m a d show ?thesis by (simp add: eq)
qed

text \<open>
  C7. When a POST to \<open>/api/cleanup\<close> fails before the cleanup step, because the
  \<open>Content-Length\<close> header is not a number or reading the body raises (an instance of
  \<open>Exception\<close>), the response is 500 with the body \<open>{error: <str of the error>,
  timestamp: <now, UTC>}\<close>, the cleanup operation is not called and the stored cleanup
  result is unchanged.
\<close>

theorem handler_failure_keeps_result:
  assumes "command req = POST" and "path req = ''/api/cleanup''"
    and "read_body env req = Inl err" and "is_Exception err"
  shows "MinimalHealthHandler e env lcr req =
           \<lparr>result_after = lcr,
            reply = Inr (json_response 500 None
                           (JDict [(''error'', JStr (exc_str err)),
                                   (''timestamp'', JStr (utcnow_iso env))])),
            cleanup_arg = None\<rparr>"
  using assms by (simp add: MinimalHealthHandler_def do_POST_def)

theorem handler_failure_keeps_result_witness:
  "MinimalHealthHandler no_module sample_env (stub_result (JInt 48))
     (sample_request POST ''/api/cleanup'' (Some ''abc'') []) =
     \<lparr>result_after = stub_result (JInt 48),
      reply = Inr (json_response 500 None
                (JDict [(''error'', JStr ''invalid literal for int() with base 10''),
                        (''timestamp'', JStr ''2025-01-01T11:00:00'')])),
      cleanup_arg = None\<rparr>"
  using handler_failure_keeps_result[of "sample_request POST ''/api/cleanup'' (Some ''abc'') []"
      sample_env "PyExc ExceptionC ''invalid literal for int() with base 10''" no_module
      "stub_result (JInt 48)"]
  by (simp add: sample_request_def sample_env_def read_body_def is_Exception_def)

text \<open>
  C8. As long as no POST to \<open>/api/cleanup\<close> has been handled, whatever other requests
  were served, \<open>GET /api/cleanup/status\<close> is answered 200 with the initial cleanup result
  as its body: \<open>status\<close> is \<open>never_run\<close>, \<open>timestamp\<close> is null and \<open>message\<close> is present.
\<close>

theorem status_before_cleanup:
  assumes "\<forall>(env', q) \<in> set earlier. \<not> (command q = POST \<and> path q = ''/api/cleanup'')"
  shows "MinimalHealthHandler e env (fst (serve e last_cleanup_result earlier))
           (status_request req) =
           \<lparr>result_after = last_cleanup_result,
            reply = Inr (json_response 200 (Some 2) last_cleanup_result),
            cleanup_arg = None\<rparr>
         \<and> snd (snd (serve e last_cleanup_result earlier)) = None
         \<and> field last_cleanup_result ''status'' = Some (JStr ''never_run'')
         \<and> field last_cleanup_result ''timestamp'' = Some JNull
         \<and> field last_cleanup_result ''message'' =
             Some (JStr ''Cleanup unavailable in fallback mode'')"
  using serve_keeps_result[OF assms, of e last_cleanup_result]
  by (simp add: get_status) (simp add: last_cleanup_result_def)

theorem status_before_cleanup_witness:
  "MinimalHealthHandler no_module sample_env
     (fst (serve no_module last_cleanup_result
        [(sample_env, sample_request GET ''/health'' None []),
         (failing_env, sample_request POST ''/other'' None [])]))
     (status_request (sample_request HEAD ''/'' None [])) =
     \<lparr>result_after = last_cleanup_result,
      reply = Inr (json_response 200 (Some 2) last_cleanup_result),
      cleanup_arg = None\<rparr>"
  using status_before_cleanup[of "[(sample_env, sample_request GET ''/health'' None []),
         (failing_env, sample_request POST ''/other'' None [])]" no_module sample_env
      "sample_request HEAD ''/'' None []"]
  by (simp add: sample_request_def)



section \<open>Properties of the supervisor\<close>

lemma keep_alive_run:
  "sup_run n w KeepAlive = (concat (replicate n [Sleep 60, Print StillAlive]), KeepAlive)"
  by (induction n) simp_all

lemma exited_run: "sup_run n w (Exited x) = ([], Exited x)"
  by (induction n) simp_all

lemma debug_wait_run: "\<not> in_degraded (snd (sup_run n w DebugWait))"
  by (cases n) (simp_all add: exited_run)

text \<open>
  What the code does achieve of the keep-alive guard: when constructing the server or
  \<open>serve_forever\<close> raises an instance of \<open>Exception\<close>, the script enters the loop of
  line 259 and stays there. After any number \<open>n\<close> of further steps it is still in that
  loop, and it has slept 60 seconds and printed the heartbeat line exactly \<open>n\<close> times.
\<close>

lemma keep_alive_after_server_failure:
  assumes "port_of w = Inr port"
    and "start_server w port = ServerRaised server_error"
    and "is_Exception server_error"
  shows "sup_run (Suc n) w (Degraded e) =
           ([Print StartingFallback, Print (FallbackFailed server_error), Print EnteringWaitLoop]
              @ concat (replicate n [Sleep 60, Print StillAlive]),
            KeepAlive)"
  using assms by (simp add: keep_alive_run)

lemma keep_alive_after_server_failure_example:
  "port_of bind_world = Inr 8000
   \<and> sup_run 3 bind_world (Degraded no_module) =
     ([Print StartingFallback, Print (FallbackFailed boom), Print EnteringWaitLoop,
       Sleep 60, Print StillAlive, Sleep 60, Print StillAlive], KeepAlive)"
  using keep_alive_after_server_failure[of bind_world 8000 boom 2 no_module]
  by (simp add: bind_world_def import_world_def crash_world_def port_of_def boom_def
      is_Exception_def numeral_2_eq_2 numeral_3_eq_3)

lemma bad_port_run:
  "sup_run (Suc (Suc n)) bad_port_world Launching =
     ([Print (FailedToImport no_module), Print StartingFallback], Exited (Some ValueError_abc))"
  by (simp add: bad_port_world_def port_of_def no_module_def is_ImportError_def exited_run)

text \<open>
  C9 says that a fallback server that cannot start leaves the process alive in the loop
  that sleeps 60 seconds and prints a heartbeat. The code misses one way of not
  starting: with \<open>PORT\<close> set to \<open>abc\<close>, line 247 raises a \<open>ValueError\<close> inside the
  handler of line 112 but before the \<open>try\<close> of line 248, so neither line 255 nor line
  263 catches it. The script ends with that error after two steps, has never slept or
  printed a heartbeat, and is still ended eight steps later.
\<close>

theorem bad_port_ends_process:
  "launch bad_port_world = MainRaised no_module
   \<and> is_ImportError no_module
   \<and> env_PORT bad_port_world = Some ''abc''
   \<and> port_of bad_port_world = Inl ValueError_abc
   \<and> sup_step bad_port_world (Degraded no_module) =
       ([Print StartingFallback], Exited (Some ValueError_abc))
   \<and> sup_run 2 bad_port_world Launching =
       ([Print (FailedToImport no_module), Print StartingFallback],
        Exited (Some ValueError_abc))
   \<and> sup_run 10 bad_port_world Launching =
       ([Print (FailedToImport no_module), Print StartingFallback],
        Exited (Some ValueError_abc))"
proof -
  have p: "port_of bad_port_world = Inl ValueError_abc"
    by (simp add: port_of_def bad_port_world_def)
  have "sup_run 2 bad_port_world Launching =
       ([Print (FailedToImport no_module), Print StartingFallback],
        Exited (Some ValueError_abc))"
    using bad_port_run[of 0] by (simp add: numeral_2_eq_2)
  moreover have "sup_run 10 bad_port_world Launching =
       ([Print (FailedToImport no_module), Print StartingFallback],
        Exited (Some ValueError_abc))"
    using bad_port_run[of 8] by (simp add: eval_nat_numeral)
  moreover have "launch bad_port_world = MainRaised no_module"
    "env_PORT bad_port_world = Some ''abc''"
    by (simp_all add: bad_port_world_def)
  moreover have "is_ImportError no_module"
    by (simp add: no_module_def is_ImportError_def)
  ultimately show ?thesis using p by simp
qed

text \<open>
  C1, as the code has it. When launching the primary application raises an
  \<open>ImportError\<close> (loading its code failed, or \<open>main()\<close> raised one), the script falls
  through to the tier of the fallback server with that error captured, and once the
  server is up its handler reports that error. A launch failure that is not an
  \<open>ImportError\<close> never reaches the tier of the fallback server, however many steps
  the script takes.
\<close>

theorem launch_failure_tiers:
  assumes "launch w = MainRaised e"
  shows "(is_ImportError e \<longrightarrow>
            sup_step w Launching = ([Print (FailedToImport e)], Degraded e)
            \<and> (port_of w = Inr port \<and> start_server w port = ServesForever \<longrightarrow>
                 snd (sup_run 2 w Launching) = Serving e port
                 \<and> handler_of (snd (sup_run 2 w Launching)) = Some (MinimalHealthHandler e)))
       \<and> (\<not> is_ImportError e \<longrightarrow> \<not> in_degraded (snd (sup_run n w Launching)))"
proof (intro conjI impI)
  assume "is_ImportError e"
  with assms show "sup_step w Launching = ([Print (FailedToImport e)], Degraded e)"
    by simp
next
  assume i: "is_ImportError e"
    and "port_of w = Inr port \<and> start_server w port = ServesForever"
  with assms show s: "snd (sup_run 2 w Launching) = Serving e port"
    by (simp add: numeral_2_eq_2)
  then show "handler_of (snd (sup_run 2 w Launching)) = Some (MinimalHealthHandler e)"
    by simp
next
  assume ni: "\<not> is_ImportError e"
  show "\<not> in_degraded (snd (sup_run n w Launching))"
  proof (cases n)
    case 0
    then show ?thesis by simp
  next
    case (Suc m)
    show ?thesis
    proof (cases "is_Exception e")
      case True
      with assms ni Suc debug_wait_run[of m w] show ?thesis
        by (auto split: prod.splits)
    next
      case False
      with assms ni Suc show ?thesis by (simp add: exited_run)
    qed
  qed
qed

theorem launch_failure_tiers_witness:
  "is_ImportError no_module
   \<and> sup_step import_world Launching = ([Print (FailedToImport no_module)], Degraded no_module)
   \<and> snd (sup_run 2 import_world Launching) = Serving no_module 8000
   \<and> handler_of (snd (sup_run 2 import_world Launching)) = Some (MinimalHealthHandler no_module)
   \<and> \<not> is_ImportError boom
   \<and> \<not> in_degraded (snd (sup_run 5 crash_world Launching))"
proof -
  have i: "is_ImportError no_module" and b: "\<not> is_ImportError boom"
    by (simp_all add: no_module_def boom_def is_ImportError_def)
  have li: "launch import_world = MainRaised no_module"
    and lc: "launch crash_world = MainRaised boom"
    by (simp_all add: import_world_def crash_world_def)
  have p: "port_of import_world = Inr 8000 \<and> start_server import_world 8000 = ServesForever"
    by (simp add: port_of_def import_world_def crash_world_def)
  from launch_failure_tiers[OF li, of 8000 0] i p
    launch_failure_tiers[OF lc, of 8000 5] b
  show ?thesis by blast
qed

text \<open>
  C1 as stated fails: when \<open>main()\<close> raises a plain \<open>Exception\<close>, the handler of line 263
  takes it, and the script is then waiting in that handler, not in the tier of the
  fallback server.
\<close>

theorem launch_failure_bypasses_degraded:
  "launch crash_world = MainRaised boom
   \<and> is_Exception boom
   \<and> sup_step crash_world Launching =
       ([Print (StartupFailed boom), Print KeepingAlive], DebugWait)
   \<and> snd (sup_step crash_world Launching) \<noteq> Degraded boom
   \<and> \<not> in_degraded (snd (sup_step crash_world Launching))"
  by (simp add: crash_world_def boom_def is_ImportError_def is_Exception_def)

end
